theory Spec2Isabelle
  imports Main
begin

section \<open>The well-log plotting script \<^verbatim>\<open>Python/plotlog.py\<close>\<close>

text \<open>
  The script reads a JSON document, takes the \<^verbatim>\<open>curves\<close> and \<^verbatim>\<open>data\<close> entries of its
  first element, projects column 0 of the rows as the index and draws one subplot per
  further column. The embedding below follows the script statement by statement. Python
  exceptions are values of type \<open>error\<close>; the state of \<^verbatim>\<open>matplotlib.pyplot\<close> is a record
  that every call takes and returns.
\<close>

subsection \<open>Data model\<close>

datatype error = IndexError | KeyError string | ValueError

text \<open>
  A curve is a JSON object, a dictionary from keys to strings. A log holds the two
  entries the script reads; the cell type of the rows is left open, since the script only
  moves cells around.
\<close>

type_synonym curve_meta = "string \<rightharpoonup> string"

record 'a log =
  curves :: "curve_meta list"
  data :: "'a list list"

subsection \<open>Python primitives\<close>

text \<open>\<^verbatim>\<open>xs[i]\<close> for a list and an index that is not negative.\<close>

definition getitem :: "'b list \<Rightarrow> nat \<Rightarrow> error + 'b" where
  "getitem xs i = (if i < length xs then Inr (xs ! i) else Inl IndexError)"

text \<open>\<^verbatim>\<open>d[k]\<close> for a dictionary with string keys.\<close>

definition dict_getitem :: "(string \<rightharpoonup> 'v) \<Rightarrow> string \<Rightarrow> error + 'v" where
  "dict_getitem d k = (case d k of None \<Rightarrow> Inl (KeyError k) | Some v \<Rightarrow> Inr v)"

text \<open>
  \<^verbatim>\<open>list(map(f, xs))\<close>: the elements are computed from left to right and the first
  exception ends the traversal.
\<close>

fun list_map :: "('b \<Rightarrow> error + 'c) \<Rightarrow> 'b list \<Rightarrow> error + 'c list" where
  "list_map f [] = Inr []"
| "list_map f (x # xs) =
     (case f x of
        Inl e \<Rightarrow> Inl e
      | Inr y \<Rightarrow> (case list_map f xs of Inl e \<Rightarrow> Inl e | Inr ys \<Rightarrow> Inr (y # ys)))"

subsection \<open>The state of pyplot\<close>

datatype edge = Bottom | Top

text \<open>
  One axes object per subplot: the grid it was declared in and its cell, the lines drawn
  on it, and the settings the script touches. A label or tick-label list that was never
  set is \<open>None\<close>.
\<close>

record 'a axes =
  nrows :: nat
  ncols :: nat
  plot_number :: nat
  lines :: "('a list \<times> 'a list) list"
  yaxis_inverted :: bool
  xaxis_ticks :: edge
  xaxis_label_position :: edge
  yticklabels :: "string list option"
  ylabel :: "string option"
  xlabel :: "string option"

text \<open>
  The figure lists its axes in the order of creation; the current axes are the last of
  the list.
\<close>

record 'a figure =
  axes_list :: "'a axes list"
  suptitle :: "string option"
  shown :: bool

definition new_figure :: "'a figure" where
  "new_figure = \<lparr>axes_list = [], suptitle = None, shown = False\<rparr>"

definition new_axes :: "nat \<Rightarrow> nat \<Rightarrow> nat \<Rightarrow> 'a axes" where
  "new_axes r c n =
     \<lparr>nrows = r, ncols = c, plot_number = n, lines = [], yaxis_inverted = False,
      xaxis_ticks = Bottom, xaxis_label_position = Bottom, yticklabels = None,
      ylabel = None, xlabel = None\<rparr>"

text \<open>
  \<^verbatim>\<open>plt.gca()\<close> followed by a change of the axes it returns. On a figure without axes
  pyplot creates the single cell of a 1 by 1 grid first.
\<close>

definition gca_update :: "('a axes \<Rightarrow> 'a axes) \<Rightarrow> 'a figure \<Rightarrow> 'a figure" where
  "gca_update f fig =
     (if axes_list fig = [] then fig\<lparr>axes_list := [f (new_axes 1 1 1)]\<rparr>
      else fig\<lparr>axes_list := butlast (axes_list fig) @ [f (last (axes_list fig))]\<rparr>)"

text \<open>
  \<^verbatim>\<open>plt.subplot(nrows, ncols, index)\<close>: the cell number must lie in the grid. The script
  asks for every cell at most once, so each call adds new axes and makes them current.
\<close>

definition plt_subplot :: "nat \<Rightarrow> nat \<Rightarrow> nat \<Rightarrow> 'a figure \<Rightarrow> error + 'a figure" where
  "plt_subplot r c n fig =
     (if n < 1 \<or> r * c < n then Inl ValueError
      else Inr (fig\<lparr>axes_list := axes_list fig @ [new_axes r c n]\<rparr>))"

text \<open>\<^verbatim>\<open>plt.plot(x, y)\<close>: both sequences must have the same length.\<close>

definition plt_plot :: "'a list \<Rightarrow> 'a list \<Rightarrow> 'a figure \<Rightarrow> error + 'a figure" where
  "plt_plot xs ys fig =
     (if length xs \<noteq> length ys then Inl ValueError
      else Inr (gca_update (\<lambda>ax. ax\<lparr>lines := lines ax @ [(xs, ys)]\<rparr>) fig))"

text \<open>\<^verbatim>\<open>ax.invert_yaxis()\<close> flips the direction of the axis.\<close>

definition invert_yaxis :: "'a axes \<Rightarrow> 'a axes" where
  "invert_yaxis ax = ax\<lparr>yaxis_inverted := \<not> yaxis_inverted ax\<rparr>"

definition tick_top :: "'a axes \<Rightarrow> 'a axes" where
  "tick_top ax = ax\<lparr>xaxis_ticks := Top\<rparr>"

definition set_label_position :: "edge \<Rightarrow> 'a axes \<Rightarrow> 'a axes" where
  "set_label_position p ax = ax\<lparr>xaxis_label_position := p\<rparr>"

definition set_yticklabels :: "string list \<Rightarrow> 'a axes \<Rightarrow> 'a axes" where
  "set_yticklabels ls ax = ax\<lparr>yticklabels := Some ls\<rparr>"

definition plt_ylabel :: "string \<Rightarrow> 'a figure \<Rightarrow> 'a figure" where
  "plt_ylabel l fig = gca_update (\<lambda>ax. ax\<lparr>ylabel := Some l\<rparr>) fig"

definition plt_xlabel :: "string \<Rightarrow> 'a figure \<Rightarrow> 'a figure" where
  "plt_xlabel l fig = gca_update (\<lambda>ax. ax\<lparr>xlabel := Some l\<rparr>) fig"

definition plt_suptitle :: "string \<Rightarrow> 'a figure \<Rightarrow> 'a figure" where
  "plt_suptitle t fig = fig\<lparr>suptitle := Some t\<rparr>"

definition plt_show :: "'a figure \<Rightarrow> 'a figure" where
  "plt_show fig = fig\<lparr>shown := True\<rparr>"

subsection \<open>The script\<close>

text \<open>\<^verbatim>\<open>index = list(map(lambda row: row[0], data))\<close>\<close>

definition index :: "'a list list \<Rightarrow> error + 'a list" where
  "index d = list_map (\<lambda>row. getitem row 0) d"

text \<open>\<^verbatim>\<open>curve = list(map(lambda row: row[curveIndex], data))\<close>\<close>

definition curve :: "nat \<Rightarrow> 'a list list \<Rightarrow> error + 'a list" where
  "curve curveIndex d = list_map (\<lambda>row. getitem row curveIndex) d"

text \<open>
  The formatted string \<^verbatim>\<open>f'{c["name"]} [{c["unit"]}]'\<close>; the name is looked up before
  the unit.
\<close>

definition axis_label :: "curve_meta \<Rightarrow> error + string" where
  "axis_label c =
     (case dict_getitem c ''name'' of
        Inl e \<Rightarrow> Inl e
      | Inr n \<Rightarrow>
          (case dict_getitem c ''unit'' of
             Inl e \<Rightarrow> Inl e
           | Inr u \<Rightarrow> Inr (n @ '' ['' @ u @ '']'')))"

text \<open>The label of \<^verbatim>\<open>curves[i]\<close>.\<close>

definition curve_label :: "curve_meta list \<Rightarrow> nat \<Rightarrow> error + string" where
  "curve_label cs i =
     (case getitem cs i of Inl e \<Rightarrow> Inl e | Inr c \<Rightarrow> axis_label c)"

text \<open>One pass through the body of the loop, for one value of \<^verbatim>\<open>curveIndex\<close>.\<close>

definition loop_body ::
  "curve_meta list \<Rightarrow> 'a list list \<Rightarrow> 'a list \<Rightarrow> nat \<Rightarrow> 'a figure \<Rightarrow> error + 'a figure" where
  "loop_body cs d idx curveIndex fig =
     (case curve curveIndex d of
        Inl e \<Rightarrow> Inl e
      | Inr crv \<Rightarrow>
     (case plt_subplot 1 (length cs) curveIndex fig of
        Inl e \<Rightarrow> Inl e
      | Inr fig1 \<Rightarrow>
     (case plt_plot crv idx fig1 of
        Inl e \<Rightarrow> Inl e
      | Inr fig2 \<Rightarrow>
     (let fig3 = gca_update invert_yaxis fig2;
          fig4 = gca_update tick_top fig3;
          fig5 = gca_update (set_label_position Top) fig4;
          fig6 = (if 1 < curveIndex then gca_update (set_yticklabels []) fig5 else fig5)
      in
     (case (if curveIndex = 1
            then (case curve_label cs 0 of
                    Inl e \<Rightarrow> Inl e
                  | Inr l \<Rightarrow> Inr (plt_ylabel l fig6))
            else Inr fig6) of
        Inl e \<Rightarrow> Inl e
      | Inr fig7 \<Rightarrow>
     (case curve_label cs curveIndex of
        Inl e \<Rightarrow> Inl e
      | Inr l \<Rightarrow> Inr (plt_xlabel l fig7)))))))"

text \<open>
  \<^verbatim>\<open>for curveIndex in range(1, len(curves))\<close>, over the list of the values that
  \<^verbatim>\<open>curveIndex\<close> takes; an exception in the body ends the loop.
\<close>

fun for_loop ::
  "curve_meta list \<Rightarrow> 'a list list \<Rightarrow> 'a list \<Rightarrow> nat list \<Rightarrow> 'a figure \<Rightarrow> error + 'a figure" where
  "for_loop cs d idx [] fig = Inr fig"
| "for_loop cs d idx (curveIndex # rest) fig =
     (case loop_body cs d idx curveIndex fig of
        Inl e \<Rightarrow> Inl e
      | Inr fig' \<Rightarrow> for_loop cs d idx rest fig')"

text \<open>
  The whole script, from the parsed document \<^verbatim>\<open>file\<close> to the figure that is shown.
\<close>

definition plotlog :: "'a log list \<Rightarrow> error + 'a figure" where
  "plotlog file =
     (case getitem file 0 of
        Inl e \<Rightarrow> Inl e
      | Inr lg \<Rightarrow>
     (let cs = curves lg; d = data lg in
     (case index d of
        Inl e \<Rightarrow> Inl e
      | Inr idx \<Rightarrow>
     (case for_loop cs d idx [1..<length cs] new_figure of
        Inl e \<Rightarrow> Inl e
      | Inr fig \<Rightarrow> Inr (plt_show (plt_suptitle ''JSON Well Log'' fig))))))"

subsection \<open>What one pass of the loop leaves behind\<close>

text \<open>
  The axes at the end of a pass that raised nothing, written as one record: the grid
  arguments and the line come from \<^verbatim>\<open>plt.subplot\<close> and \<^verbatim>\<open>plt.plot\<close>, the remaining
  fields from the calls that follow them.
\<close>

definition drawn_axes ::
  "nat \<Rightarrow> nat \<Rightarrow> 'a list \<Rightarrow> 'a list \<Rightarrow> string option \<Rightarrow> string \<Rightarrow> 'a axes" where
  "drawn_axes n i crv idx yl xl =
     \<lparr>nrows = 1, ncols = n, plot_number = i, lines = [(crv, idx)], yaxis_inverted = True,
      xaxis_ticks = Top, xaxis_label_position = Top,
      yticklabels = (if 1 < i then Some [] else None), ylabel = yl, xlabel = Some xl\<rparr>"

text \<open>
  \<open>pass_result cs d idx i ax\<close>: the pass for \<^verbatim>\<open>curveIndex = i\<close> raises nothing and
  leaves the axes \<open>ax\<close>. The lemmas \<open>loop_body_Inr_D\<close> and \<open>loop_body_Inr_I\<close> below show
  that this describes \<open>loop_body\<close> exactly.
\<close>

definition pass_result ::
  "curve_meta list \<Rightarrow> 'a list list \<Rightarrow> 'a list \<Rightarrow> nat \<Rightarrow> 'a axes \<Rightarrow> bool" where
  "pass_result cs d idx i ax \<longleftrightarrow>
     (\<exists>crv xl yl. 1 \<le> i \<and> i < length cs \<and> curve i d = Inr crv \<and> length crv = length idx \<and>
        curve_label cs i = Inr xl \<and>
        (if i = 1 then \<exists>l. curve_label cs 0 = Inr l \<and> yl = Some l else yl = None) \<and>
        ax = drawn_axes (length cs) i crv idx yl xl)"

subsection \<open>Example documents\<close>

text \<open>The document of the specification's scenario: a depth curve and one gamma-ray curve.\<close>

definition depth_gamma :: "int log" where
  "depth_gamma =
     \<lparr>curves = [[''name'' \<mapsto> ''Depth'', ''unit'' \<mapsto> ''m''],
                [''name'' \<mapsto> ''Gamma'', ''unit'' \<mapsto> ''API'']],
      data = [[0, 10], [1, 20], [2, 15]]\<rparr>"

text \<open>A document with two curves besides the depth.\<close>

definition depth_gamma_res :: "int log" where
  "depth_gamma_res =
     \<lparr>curves = [[''name'' \<mapsto> ''Depth'', ''unit'' \<mapsto> ''m''],
                [''name'' \<mapsto> ''Gamma'', ''unit'' \<mapsto> ''API''],
                [''name'' \<mapsto> ''Res'', ''unit'' \<mapsto> ''ohmm'']],
      data = [[0, 10, 5], [1, 20, 7]]\<rparr>"

text \<open>
  A document without rows, and a document whose second curve has no unit.
\<close>

definition no_rows :: "int log" where
  "no_rows =
     \<lparr>curves = [[''name'' \<mapsto> ''Depth'', ''unit'' \<mapsto> ''m''],
                [''name'' \<mapsto> ''Gamma'', ''unit'' \<mapsto> ''API'']],
      data = []\<rparr>"

definition unit_missing :: "int log" where
  "unit_missing =
     \<lparr>curves = [[''name'' \<mapsto> ''Depth'', ''unit'' \<mapsto> ''m''], [''name'' \<mapsto> ''Gamma'']],
      data = [[0, 10], [1, 20]]\<rparr>"

section \<open>Properties\<close>

subsection \<open>Column extraction\<close>

lemma list_map_total:
  "\<forall>x\<in>set xs. f x = Inr (g x) \<Longrightarrow> list_map f xs = Inr (map g xs)"
  by (induction xs) simp_all

lemma list_map_Inl:
  assumes "x \<in> set xs" "f x = Inl e" "\<forall>z\<in>set xs. \<forall>e'. f z = Inl e' \<longrightarrow> e' = e"
  shows "list_map f xs = Inl e"
  using assms
proof (induction xs)
  case Nil
  then show ?case by simp
next
  case (Cons a xs)
  show ?case
  proof (cases "f a")
    case (Inl e')
    with Cons.prems(3) have "e' = e" by simp
    with Inl show ?thesis by simp
  next
    case (Inr y)
    with Cons.prems(1,2) have mem: "x \<in> set xs" by auto
    from Cons.prems(3) have "\<forall>z\<in>set xs. \<forall>e'. f z = Inl e' \<longrightarrow> e' = e" by simp
    with mem Cons.prems(2) have "list_map f xs = Inl e" by (rule Cons.IH)
    with Inr show ?thesis by simp
  qed
qed

lemma curve_Inr:
  "\<forall>row\<in>set d. i < length row \<Longrightarrow> curve i d = Inr (map (\<lambda>row. row ! i) d)"
  unfolding curve_def by (rule list_map_total) (simp add: getitem_def)

lemma curve_Inl:
  assumes "row \<in> set d" "length row \<le> i"
  shows "curve i d = Inl IndexError"
  unfolding curve_def
  by (rule list_map_Inl [OF assms(1)]) (use assms(2) in \<open>auto simp: getitem_def split: if_splits\<close>)

lemma curve_Inr_D:
  assumes "curve i d = Inr c"
  shows "(\<forall>row\<in>set d. i < length row) \<and> c = map (\<lambda>row. row ! i) d"
proof -
  have all: "\<forall>row\<in>set d. i < length row"
  proof (rule ccontr)
    assume "\<not> ?thesis"
    then obtain row where "row \<in> set d" "length row \<le> i" by (auto simp: not_less)
    then have "curve i d = Inl IndexError" by (rule curve_Inl)
    with assms show False by simp
  qed
  with assms show ?thesis by (simp add: curve_Inr)
qed

lemma index_curve: "index d = curve 0 d"
  by (simp add: index_def curve_def)

subsection \<open>The loop\<close>

lemma gca_update_snoc:
  "gca_update f (fig\<lparr>axes_list := xs @ [a]\<rparr>) = fig\<lparr>axes_list := xs @ [f a]\<rparr>"
  by (simp add: gca_update_def)

lemma curve_label_Inr_lt: "curve_label cs i = Inr l \<Longrightarrow> i < length cs"
  by (auto simp: curve_label_def getitem_def split: if_splits)

lemma plt_subplot_Inr:
  "1 \<le> n \<Longrightarrow> n \<le> r * c \<Longrightarrow>
   plt_subplot r c n fig = Inr (fig\<lparr>axes_list := axes_list fig @ [new_axes r c n]\<rparr>)"
  by (simp add: plt_subplot_def)

lemma plt_plot_snoc:
  "length xs = length ys \<Longrightarrow>
   plt_plot xs ys (fig\<lparr>axes_list := as @ [a]\<rparr>) =
     Inr (fig\<lparr>axes_list := as @ [a\<lparr>lines := lines a @ [(xs, ys)]\<rparr>]\<rparr>)"
  by (simp add: plt_plot_def gca_update_snoc)

lemma loop_body_first:
  assumes "Suc 0 < length cs" "curve (Suc 0) d = Inr crv" "length crv = length idx"
  shows "loop_body cs d idx (Suc 0) fig =
     (case curve_label cs 0 of
        Inl e \<Rightarrow> Inl e
      | Inr l \<Rightarrow>
          (case curve_label cs (Suc 0) of
             Inl e \<Rightarrow> Inl e
           | Inr xl \<Rightarrow>
               Inr (fig\<lparr>axes_list :=
                      axes_list fig @ [drawn_axes (length cs) (Suc 0) crv idx (Some l) xl]\<rparr>)))"
  using assms
  by (simp add: loop_body_def plt_subplot_Inr plt_plot_snoc gca_update_snoc new_axes_def
      invert_yaxis_def tick_top_def set_label_position_def plt_ylabel_def plt_xlabel_def
      drawn_axes_def split: sum.splits)

lemma loop_body_later:
  assumes "1 < i" "i < length cs" "curve i d = Inr crv" "length crv = length idx"
  shows "loop_body cs d idx i fig =
     (case curve_label cs i of
        Inl e \<Rightarrow> Inl e
      | Inr xl \<Rightarrow>
          Inr (fig\<lparr>axes_list :=
                 axes_list fig @ [drawn_axes (length cs) i crv idx None xl]\<rparr>))"
  using assms
  by (simp add: loop_body_def plt_subplot_Inr plt_plot_snoc gca_update_snoc new_axes_def
      invert_yaxis_def tick_top_def set_label_position_def set_yticklabels_def plt_xlabel_def
      drawn_axes_def split: sum.splits)

lemma loop_body_Inr_D:
  assumes "loop_body cs d idx i fig = Inr fig'"
  shows "\<exists>ax. pass_result cs d idx i ax \<and> fig' = fig\<lparr>axes_list := axes_list fig @ [ax]\<rparr>"
proof -
  from assms obtain crv where crv: "curve i d = Inr crv"
    by (auto simp: loop_body_def split: sum.splits)
  from assms crv have rng: "1 \<le> i" "i \<le> length cs"
    by (auto simp: loop_body_def plt_subplot_def split: sum.splits if_splits)
  from assms crv rng have len: "length crv = length idx"
    by (auto simp: loop_body_def plt_subplot_def plt_plot_def split: sum.splits if_splits)
  from assms crv rng len obtain xl where xl: "curve_label cs i = Inr xl"
    by (auto simp: loop_body_def plt_subplot_def plt_plot_def Let_def split: sum.splits if_splits)
  from xl have lt: "i < length cs" by (rule curve_label_Inr_lt)
  show ?thesis
  proof (cases "i = 1")
    case True
    with assms crv lt len xl obtain l where l: "curve_label cs 0 = Inr l"
      and "fig' = fig\<lparr>axes_list := axes_list fig @ [drawn_axes (length cs) i crv idx (Some l) xl]\<rparr>"
      by (auto simp: loop_body_first split: sum.splits)
    with crv rng lt len xl True show ?thesis
      unfolding pass_result_def by auto
  next
    case False
    with rng have gt: "1 < i" by simp
    from assms crv lt len xl gt
    have "fig' = fig\<lparr>axes_list := axes_list fig @ [drawn_axes (length cs) i crv idx None xl]\<rparr>"
      by (simp add: loop_body_later)
    with crv rng lt len xl False show ?thesis
      unfolding pass_result_def by auto
  qed
qed

lemma loop_body_Inr_I:
  assumes "pass_result cs d idx i ax"
  shows "loop_body cs d idx i fig = Inr (fig\<lparr>axes_list := axes_list fig @ [ax]\<rparr>)"
proof -
  from assms obtain crv xl yl where
    rng: "1 \<le> i" "i < length cs" and crv: "curve i d = Inr crv" and
    len: "length crv = length idx" and xl: "curve_label cs i = Inr xl" and
    yl: "if i = 1 then \<exists>l. curve_label cs 0 = Inr l \<and> yl = Some l else yl = None" and
    ax: "ax = drawn_axes (length cs) i crv idx yl xl"
    unfolding pass_result_def by blast
  show ?thesis
  proof (cases "i = 1")
    case True
    with yl obtain l where "curve_label cs 0 = Inr l" "yl = Some l" by auto
    with True rng crv len xl ax show ?thesis
      by (simp add: loop_body_first)
  next
    case False
    with yl rng have "yl = None" "1 < i" by auto
    with rng crv len xl ax show ?thesis
      by (simp add: loop_body_later)
  qed
qed

lemma for_loop_Inr_iff:
  "for_loop cs d idx js fig = Inr fig' \<longleftrightarrow>
     (\<exists>axs. list_all2 (pass_result cs d idx) js axs \<and>
            fig' = fig\<lparr>axes_list := axes_list fig @ axs\<rparr>)"
proof (induction js arbitrary: fig)
  case Nil
  show ?case by auto
next
  case (Cons j js)
  show ?case
  proof
    assume run: "for_loop cs d idx (j # js) fig = Inr fig'"
    then obtain fig1 where b: "loop_body cs d idx j fig = Inr fig1"
      and r: "for_loop cs d idx js fig1 = Inr fig'"
      by (auto split: sum.splits)
    from loop_body_Inr_D [OF b] obtain ax where
      ax: "pass_result cs d idx j ax" "fig1 = fig\<lparr>axes_list := axes_list fig @ [ax]\<rparr>"
      by blast
    from r Cons.IH [of fig1] obtain axs where
      axs: "list_all2 (pass_result cs d idx) js axs" "fig' = fig1\<lparr>axes_list := axes_list fig1 @ axs\<rparr>"
      by blast
    from ax axs have "list_all2 (pass_result cs d idx) (j # js) (ax # axs)"
      "fig' = fig\<lparr>axes_list := axes_list fig @ (ax # axs)\<rparr>"
      by simp_all
    then show "\<exists>axs. list_all2 (pass_result cs d idx) (j # js) axs \<and>
            fig' = fig\<lparr>axes_list := axes_list fig @ axs\<rparr>"
      by blast
  next
    assume "\<exists>axs. list_all2 (pass_result cs d idx) (j # js) axs \<and>
            fig' = fig\<lparr>axes_list := axes_list fig @ axs\<rparr>"
    then obtain ax axs where p: "pass_result cs d idx j ax"
      and ps: "list_all2 (pass_result cs d idx) js axs"
      and f: "fig' = fig\<lparr>axes_list := axes_list fig @ ax # axs\<rparr>"
      by (auto simp: list_all2_Cons1)
    let ?fig1 = "fig\<lparr>axes_list := axes_list fig @ [ax]\<rparr>"
    have "loop_body cs d idx j fig = Inr ?fig1" using p by (rule loop_body_Inr_I)
    moreover have "for_loop cs d idx js ?fig1 = Inr fig'"
      using ps f Cons.IH [of ?fig1] by auto
    ultimately show "for_loop cs d idx (j # js) fig = Inr fig'" by simp
  qed
qed

lemma curve_label_Inr_iff:
  "curve_label cs i = Inr l \<longleftrightarrow>
     i < length cs \<and>
     (\<exists>n u. (cs ! i) ''name'' = Some n \<and> (cs ! i) ''unit'' = Some u \<and> l = n @ '' ['' @ u @ '']'')"
  by (auto simp: curve_label_def getitem_def axis_label_def dict_getitem_def
      split: option.splits)

subsection \<open>The whole script\<close>

lemma plotlog_Inr_iff:
  "plotlog (lg # rest) = Inr fig \<longleftrightarrow>
     (\<exists>idx axs. index (data lg) = Inr idx \<and>
        list_all2 (pass_result (curves lg) (data lg) idx) [1..<length (curves lg)] axs \<and>
        fig = \<lparr>axes_list = axs, suptitle = Some ''JSON Well Log'', shown = True\<rparr>)"
  (is "?run \<longleftrightarrow> ?shape")
proof
  assume ?run
  then obtain idx fig0 where idx: "index (data lg) = Inr idx"
    and loop: "for_loop (curves lg) (data lg) idx [1..<length (curves lg)] new_figure = Inr fig0"
    and fig: "fig = plt_show (plt_suptitle ''JSON Well Log'' fig0)"
    by (auto simp: plotlog_def getitem_def Let_def split: sum.splits)
  from loop obtain axs where
    axs: "list_all2 (pass_result (curves lg) (data lg) idx) [1..<length (curves lg)] axs"
    and fig0: "fig0 = new_figure\<lparr>axes_list := axes_list new_figure @ axs\<rparr>"
    unfolding for_loop_Inr_iff by blast
  from fig fig0
  have "fig = \<lparr>axes_list = axs, suptitle = Some ''JSON Well Log'', shown = True\<rparr>"
    by (simp add: new_figure_def plt_show_def plt_suptitle_def)
  with idx axs show ?shape by blast
next
  assume ?shape
  then obtain idx axs where idx: "index (data lg) = Inr idx"
    and axs: "list_all2 (pass_result (curves lg) (data lg) idx) [1..<length (curves lg)] axs"
    and fig: "fig = \<lparr>axes_list = axs, suptitle = Some ''JSON Well Log'', shown = True\<rparr>"
    by blast
  from axs
  have "for_loop (curves lg) (data lg) idx [1..<length (curves lg)] new_figure =
          Inr (new_figure\<lparr>axes_list := axes_list new_figure @ axs\<rparr>)"
    unfolding for_loop_Inr_iff by blast
  with idx fig show ?run
    by (simp add: plotlog_def getitem_def new_figure_def plt_show_def plt_suptitle_def)
qed

lemma index_Inr_D:
  "index d = Inr idx \<Longrightarrow> (\<forall>row\<in>set d. 0 < length row) \<and> idx = map (\<lambda>row. row ! 0) d"
  unfolding index_curve by (rule curve_Inr_D)

lemma curve_label_keys:
  assumes "i < length cs" "''name'' \<in> dom (cs ! i)" "''unit'' \<in> dom (cs ! i)"
  shows "\<exists>l. curve_label cs i = Inr l"
  using assms unfolding curve_label_Inr_iff by auto

lemma pass_result_exists:
  assumes i: "1 \<le> i" "i < length cs"
    and rows: "\<forall>row\<in>set d. i < length row"
    and idx: "length idx = length d"
    and keys: "\<forall>c\<in>set cs. ''name'' \<in> dom c \<and> ''unit'' \<in> dom c"
  shows "\<exists>ax. pass_result cs d idx i ax"
proof -
  from rows have crv: "curve i d = Inr (map (\<lambda>row. row ! i) d)" by (rule curve_Inr)
  from i keys obtain xl where xl: "curve_label cs i = Inr xl"
    using curve_label_keys [of i cs] by auto
  from i have "0 < length cs" by linarith
  with keys obtain l where l: "curve_label cs 0 = Inr l"
    using curve_label_keys [of 0 cs] by auto
  let ?yl = "if i = 1 then Some l else None"
  have "pass_result cs d idx i (drawn_axes (length cs) i (map (\<lambda>row. row ! i) d) idx ?yl xl)"
    unfolding pass_result_def using i crv idx xl l by auto
  then show ?thesis ..
qed

lemma list_all2_exists:
  "\<forall>x\<in>set xs. \<exists>y. P x y \<Longrightarrow> \<exists>ys. list_all2 P xs ys"
proof (induction xs)
  case Nil
  show ?case by simp
next
  case (Cons x xs)
  then obtain y ys where "P x y" "list_all2 P xs ys" by auto
  then have "list_all2 P (x # xs) (y # ys)" by simp
  then show ?case ..
qed

lemma plotlog_runs:
  assumes rows: "\<forall>row\<in>set (data lg). 0 < length row \<and> length (curves lg) \<le> length row"
    and keys: "\<forall>c\<in>set (curves lg). ''name'' \<in> dom c \<and> ''unit'' \<in> dom c"
  shows "\<exists>fig. plotlog (lg # rest) = Inr fig"
proof -
  let ?idx = "map (\<lambda>row. row ! 0) (data lg)"
  from rows have idx: "index (data lg) = Inr ?idx"
    unfolding index_curve by (intro curve_Inr) auto
  have "\<forall>i\<in>set [1..<length (curves lg)]. \<exists>ax. pass_result (curves lg) (data lg) ?idx i ax"
  proof
    fix i assume "i \<in> set [1..<length (curves lg)]"
    then have i: "1 \<le> i" "i < length (curves lg)" by auto
    with rows have "\<forall>row\<in>set (data lg). i < length row" by fastforce
    with i keys show "\<exists>ax. pass_result (curves lg) (data lg) ?idx i ax"
      by (intro pass_result_exists) auto
  qed
  then obtain axs where
    "list_all2 (pass_result (curves lg) (data lg) ?idx) [1..<length (curves lg)] axs"
    using list_all2_exists by blast
  with idx show ?thesis unfolding plotlog_Inr_iff by blast
qed

lemma pass_result_plot_numbers:
  "list_all2 (pass_result cs d idx) js axs \<Longrightarrow> map plot_number axs = js"
  by (induction rule: list_all2_induct) (auto simp: pass_result_def drawn_axes_def)

lemma plotlog_subplot:
  assumes run: "plotlog (lg # rest) = Inr fig" and i: "1 \<le> i" "i < length (curves lg)"
  shows "\<exists>idx. index (data lg) = Inr idx \<and> i - 1 < length (axes_list fig) \<and>
           pass_result (curves lg) (data lg) idx i (axes_list fig ! (i - 1))"
proof -
  from run obtain idx axs where idx: "index (data lg) = Inr idx"
    and axs: "list_all2 (pass_result (curves lg) (data lg) idx) [1..<length (curves lg)] axs"
    and fig: "fig = \<lparr>axes_list = axs, suptitle = Some ''JSON Well Log'', shown = True\<rparr>"
    unfolding plotlog_Inr_iff by blast
  from i have p: "i - 1 < length [1..<length (curves lg)]" by simp
  from i have nth: "[1..<length (curves lg)] ! (i - 1) = i" by simp
  from list_all2_nthD [OF axs p] nth
  have "pass_result (curves lg) (data lg) idx i (axs ! (i - 1))" by simp
  moreover from list_all2_lengthD [OF axs] p have "i - 1 < length axs" by simp
  ultimately show ?thesis using idx fig by auto
qed

lemma pass_result_fields:
  assumes "pass_result cs d idx i ax"
  shows "nrows ax = 1" "ncols ax = length cs" "plot_number ax = i"
    "yaxis_inverted ax" "xaxis_ticks ax = Top" "xaxis_label_position ax = Top"
    "yticklabels ax = (if 1 < i then Some [] else None)"
    "\<exists>crv. curve i d = Inr crv \<and> length crv = length idx \<and> lines ax = [(crv, idx)]"
    "\<exists>l. curve_label cs i = Inr l \<and> xlabel ax = Some l"
    "if i = 1 then \<exists>l. curve_label cs 0 = Inr l \<and> ylabel ax = Some l else ylabel ax = None"
  using assms unfolding pass_result_def drawn_axes_def by auto

lemma plotlog_axes_in_range:
  assumes "plotlog (lg # rest) = Inr fig" "ax \<in> set (axes_list fig)"
  shows "\<exists>idx i. index (data lg) = Inr idx \<and> 1 \<le> i \<and> i < length (curves lg) \<and>
           pass_result (curves lg) (data lg) idx i ax"
proof -
  from assms(1) obtain idx where idx: "index (data lg) = Inr idx"
    and axs: "list_all2 (pass_result (curves lg) (data lg) idx) [1..<length (curves lg)]
               (axes_list fig)"
    unfolding plotlog_Inr_iff by auto
  from assms(2) obtain k where k: "k < length (axes_list fig)" "axes_list fig ! k = ax"
    by (auto simp: in_set_conv_nth)
  from list_all2_lengthD [OF axs] k
  have kk: "k < length [1..<length (curves lg)]" by simp
  from list_all2_nthD [OF axs kk] k
  have "pass_result (curves lg) (data lg) idx ([1..<length (curves lg)] ! k) ax" by simp
  moreover from kk have "[1..<length (curves lg)] ! k = 1 + k" "1 + k < length (curves lg)"
    by auto
  ultimately show ?thesis using idx by (intro exI [of _ idx] exI [of _ "1 + k"]) simp
qed

lemma plotlog_axes_count:
  assumes "plotlog (lg # rest) = Inr fig"
  shows "map plot_number (axes_list fig) = [1..<length (curves lg)]"
    and "length (axes_list fig) = length (curves lg) - 1"
proof -
  from assms obtain idx where
    axs: "list_all2 (pass_result (curves lg) (data lg) idx) [1..<length (curves lg)]
            (axes_list fig)"
    unfolding plotlog_Inr_iff by auto
  then show "map plot_number (axes_list fig) = [1..<length (curves lg)]"
    by (rule pass_result_plot_numbers)
  from list_all2_lengthD [OF axs] show "length (axes_list fig) = length (curves lg) - 1"
    by simp
qed

lemma grid_declaration:
  assumes "plotlog (lg # rest) = Inr fig" "ax \<in> set (axes_list fig)"
  shows "nrows ax = 1 \<and> ncols ax = length (curves lg) \<and>
         1 \<le> plot_number ax \<and> plot_number ax < length (curves lg)"
proof -
  from plotlog_axes_in_range [OF assms] obtain idx i where
    i: "1 \<le> i" "i < length (curves lg)" and
    p: "pass_result (curves lg) (data lg) idx i ax"
    by blast
  with pass_result_fields(1,2,3) [OF p] show ?thesis by simp
qed

subsection \<open>The script on the example documents\<close>

lemmas script_defs =
  plotlog_def getitem_def dict_getitem_def index_def curve_def axis_label_def curve_label_def
  loop_body_def plt_subplot_def plt_plot_def gca_update_def new_axes_def new_figure_def
  invert_yaxis_def tick_top_def set_label_position_def set_yticklabels_def plt_ylabel_def
  plt_xlabel_def plt_suptitle_def plt_show_def

lemma upt_1_3: "[1..<3] = [1, 2 :: nat]"
  by (simp add: upt_rec)

lemma plotlog_depth_gamma_res:
  "plotlog [depth_gamma_res] =
     Inr \<lparr>axes_list =
            [\<lparr>nrows = 1, ncols = 3, plot_number = 1, lines = [([10, 20], [0, 1])],
                yaxis_inverted = True, xaxis_ticks = Top, xaxis_label_position = Top,
                yticklabels = None, ylabel = Some ''Depth [m]'',
                xlabel = Some ''Gamma [API]''\<rparr>,
             \<lparr>nrows = 1, ncols = 3, plot_number = 2, lines = [([5, 7], [0, 1])],
                yaxis_inverted = True, xaxis_ticks = Top, xaxis_label_position = Top,
                yticklabels = Some [], ylabel = None, xlabel = Some ''Res [ohmm]''\<rparr>],
          suptitle = Some ''JSON Well Log'', shown = True\<rparr>"
  by (simp add: script_defs depth_gamma_res_def upt_1_3)

lemma upt_1_2: "[1..<2] = [1 :: nat]"
  by (simp add: upt_rec)

section \<open>The claims\<close>

text \<open>
  C1. Whenever every row has a cell at position \<open>i\<close>, the column extracted for \<open>i\<close> is the
  projection \<^verbatim>\<open>[row[i] for row in data]\<close>, in the order of the rows; the index column is
  the column extracted for position 0.
\<close>

theorem column_projection:
  assumes "\<forall>row\<in>set d. i < length row"
  shows "curve i d = Inr (map (\<lambda>row. row ! i) d) \<and> index d = curve 0 d"
  using assms by (simp add: curve_Inr index_curve)

theorem column_projection_witness:
  "list_all (\<lambda>row. 1 < length row) [[0, 10], [1, 20], [2, 15 :: int]] \<and>
   curve 1 [[0, 10], [1, 20], [2, 15 :: int]] = Inr [10, 20, 15] \<and>
   index [[0, 10], [1, 20], [2, 15 :: int]] = Inr [0, 1, 2]"
  using column_projection [of "[[0, 10], [1, 20], [2, 15 :: int]]" 1]
    column_projection [of "[[0, 10], [1, 20], [2, 15 :: int]]" 0]
  by simp

text \<open>
  C2. For a document whose \<^verbatim>\<open>curves\<close> list has length \<open>K \<ge> 1\<close>, whose rows all have
  length \<open>K\<close> and whose curves all carry a name and a unit, the script runs to its end
  and has created exactly \<open>K - 1\<close> subplots, at the positions \<open>1, \<dots>, K - 1\<close> in ascending
  order.
\<close>

theorem subplot_count:
  assumes "curves lg \<noteq> []"
    and "\<forall>row\<in>set (data lg). length row = length (curves lg)"
    and "\<forall>c\<in>set (curves lg). ''name'' \<in> dom c \<and> ''unit'' \<in> dom c"
  shows "\<exists>fig. plotlog (lg # rest) = Inr fig \<and>
           length (axes_list fig) = length (curves lg) - 1 \<and>
           map plot_number (axes_list fig) = [1..<length (curves lg)]"
proof -
  from assms(1,2)
  have "\<forall>row\<in>set (data lg). 0 < length row \<and> length (curves lg) \<le> length row" by simp
  from plotlog_runs [OF this assms(3)] obtain fig where run: "plotlog (lg # rest) = Inr fig"
    by blast
  then obtain idx where
    "list_all2 (pass_result (curves lg) (data lg) idx) [1..<length (curves lg)] (axes_list fig)"
    unfolding plotlog_Inr_iff by auto
  then have nums: "map plot_number (axes_list fig) = [1..<length (curves lg)]"
    by (rule pass_result_plot_numbers)
  then have "length (map plot_number (axes_list fig)) = length [1..<length (curves lg)]"
    by simp
  then have "length (axes_list fig) = length (curves lg) - 1" by simp
  with run nums show ?thesis by blast
qed

theorem subplot_count_witness:
  "curves depth_gamma_res \<noteq> [] \<and>
   list_all (\<lambda>row. length row = length (curves depth_gamma_res)) (data depth_gamma_res) \<and>
   list_all (\<lambda>c. c ''name'' \<noteq> None \<and> c ''unit'' \<noteq> None) (curves depth_gamma_res) \<and>
   \<not> isl (plotlog [depth_gamma_res]) \<and>
   length (axes_list (projr (plotlog [depth_gamma_res]))) = 2 \<and>
   map plot_number (axes_list (projr (plotlog [depth_gamma_res]))) = [1, 2]"
proof -
  have h1: "curves depth_gamma_res \<noteq> []" by (simp add: depth_gamma_res_def)
  have h2: "\<forall>row\<in>set (data depth_gamma_res). length row = length (curves depth_gamma_res)"
    by (simp add: depth_gamma_res_def)
  have h3: "\<forall>c\<in>set (curves depth_gamma_res). ''name'' \<in> dom c \<and> ''unit'' \<in> dom c"
    by (simp add: depth_gamma_res_def)
  have h2': "list_all (\<lambda>row. length row = length (curves depth_gamma_res)) (data depth_gamma_res)"
    by (simp add: depth_gamma_res_def)
  have h3': "list_all (\<lambda>c. c ''name'' \<noteq> None \<and> c ''unit'' \<noteq> None) (curves depth_gamma_res)"
    by (simp add: depth_gamma_res_def)
  from subplot_count [OF h1 h2 h3, of "[]"] h1 h2' h3' show ?thesis
    by (simp add: plotlog_depth_gamma_res)
qed

text \<open>
  C3. The claim reads: the subplot of a non-index curve is created in a one-row grid whose
  declared width is \<open>N - 1\<close>, for \<open>N\<close> curves, at position \<^verbatim>\<open>curveIndex\<close>. The script passes
  \<^verbatim>\<open>len(curves)\<close> as the number of columns: on the document with the two curves Depth and
  Gamma the only subplot sits in cell 1 of a grid declared with 2 columns, not 1. By
  \<open>grid_declaration\<close> the declared width is \<open>N\<close> on every run, so the last cell of the grid
  is never filled.
\<close>

theorem two_curves_grid:
  "length (curves depth_gamma) = 2 \<and>
   plotlog [depth_gamma] =
     Inr \<lparr>axes_list =
            [\<lparr>nrows = 1, ncols = 2, plot_number = 1, lines = [([10, 20, 15], [0, 1, 2])],
                yaxis_inverted = True, xaxis_ticks = Top, xaxis_label_position = Top,
                yticklabels = None, ylabel = Some ''Depth [m]'',
                xlabel = Some ''Gamma [API]''\<rparr>],
          suptitle = Some ''JSON Well Log'', shown = True\<rparr>"
  by (simp add: script_defs depth_gamma_def upt_1_2)

text \<open>
  C4. For a well-formed document with at least two curves the script runs to its end; the
  first subplot, at position 1, has the vertical axis label \<^verbatim>\<open>"{name} [{unit}]"\<close> of curve
  0, and every subplot at a position greater than 1 has its vertical tick labels set to
  the empty list and no vertical axis label.
\<close>

theorem vertical_labels:
  assumes "2 \<le> length (curves lg)"
    and "\<forall>row\<in>set (data lg). length row = length (curves lg)"
    and "\<forall>c\<in>set (curves lg). ''name'' \<in> dom c \<and> ''unit'' \<in> dom c"
  shows "\<exists>fig n u. plotlog (lg # rest) = Inr fig \<and>
           (curves lg ! 0) ''name'' = Some n \<and> (curves lg ! 0) ''unit'' = Some u \<and>
           axes_list fig \<noteq> [] \<and>
           plot_number (axes_list fig ! 0) = 1 \<and>
           ylabel (axes_list fig ! 0) = Some (n @ '' ['' @ u @ '']'') \<and>
           (\<forall>ax\<in>set (axes_list fig). 1 < plot_number ax \<longrightarrow>
              yticklabels ax = Some [] \<and> ylabel ax = None)"
proof -
  from assms(1) have "0 < length (curves lg)" by linarith
  with assms(2)
  have "\<forall>row\<in>set (data lg). 0 < length row \<and> length (curves lg) \<le> length row" by simp
  from plotlog_runs [OF this assms(3)] obtain fig where run: "plotlog (lg # rest) = Inr fig"
    by blast
  from assms(1) have one: "(1::nat) \<le> 1" "1 < length (curves lg)" by simp_all
  from plotlog_subplot [OF run one] obtain idx where
    lt: "0 < length (axes_list fig)" and
    p: "pass_result (curves lg) (data lg) idx 1 (axes_list fig ! 0)"
    by auto
  from pass_result_fields(10) [OF p] obtain l where
    "curve_label (curves lg) 0 = Inr l" "ylabel (axes_list fig ! 0) = Some l"
    by auto
  then obtain n u where nu: "(curves lg ! 0) ''name'' = Some n" "(curves lg ! 0) ''unit'' = Some u"
    "ylabel (axes_list fig ! 0) = Some (n @ '' ['' @ u @ '']'')"
    unfolding curve_label_Inr_iff by auto
  have later: "\<forall>ax\<in>set (axes_list fig). 1 < plot_number ax \<longrightarrow>
              yticklabels ax = Some [] \<and> ylabel ax = None"
  proof (intro ballI impI)
    fix ax assume ax: "ax \<in> set (axes_list fig)" and gt: "1 < plot_number ax"
    from plotlog_axes_in_range [OF run ax] obtain idx' j where
      q: "pass_result (curves lg) (data lg) idx' j ax" by blast
    from pass_result_fields(3) [OF q] gt have "1 < j" by simp
    with pass_result_fields(7,10) [OF q]
    show "yticklabels ax = Some [] \<and> ylabel ax = None" by simp
  qed
  from lt have "axes_list fig \<noteq> []" by auto
  with run nu pass_result_fields(3) [OF p] later show ?thesis by blast
qed

theorem vertical_labels_witness:
  "2 \<le> length (curves depth_gamma_res) \<and>
   list_all (\<lambda>row. length row = length (curves depth_gamma_res)) (data depth_gamma_res) \<and>
   list_all (\<lambda>c. c ''name'' \<noteq> None \<and> c ''unit'' \<noteq> None) (curves depth_gamma_res) \<and>
   \<not> isl (plotlog [depth_gamma_res]) \<and>
   plot_number (axes_list (projr (plotlog [depth_gamma_res])) ! 0) = 1 \<and>
   ylabel (axes_list (projr (plotlog [depth_gamma_res])) ! 0) = Some ''Depth [m]'' \<and>
   plot_number (axes_list (projr (plotlog [depth_gamma_res])) ! 1) = 2 \<and>
   yticklabels (axes_list (projr (plotlog [depth_gamma_res])) ! 1) = Some [] \<and>
   ylabel (axes_list (projr (plotlog [depth_gamma_res])) ! 1) = None"
proof -
  have h1: "2 \<le> length (curves depth_gamma_res)" by (simp add: depth_gamma_res_def)
  have h2: "\<forall>row\<in>set (data depth_gamma_res). length row = length (curves depth_gamma_res)"
    by (simp add: depth_gamma_res_def)
  have h3: "\<forall>c\<in>set (curves depth_gamma_res). ''name'' \<in> dom c \<and> ''unit'' \<in> dom c"
    by (simp add: depth_gamma_res_def)
  have h2': "list_all (\<lambda>row. length row = length (curves depth_gamma_res)) (data depth_gamma_res)"
    by (simp add: depth_gamma_res_def)
  have h3': "list_all (\<lambda>c. c ''name'' \<noteq> None \<and> c ''unit'' \<noteq> None) (curves depth_gamma_res)"
    by (simp add: depth_gamma_res_def)
  from vertical_labels [OF h1 h2 h3, of "[]"] h1 h2' h3' show ?thesis
    by (simp add: plotlog_depth_gamma_res)
qed

text \<open>
  C5. On every run that reaches its end, the subplot of the non-index curve at position
  \<open>i\<close> (the axes created as number \<open>i\<close>, at place \<open>i - 1\<close> of the list) has the horizontal
  axis label \<^verbatim>\<open>"{name} [{unit}]"\<close> of curve \<open>i\<close>, and its horizontal ticks and label are at
  the top edge.
\<close>

theorem horizontal_labels:
  assumes "plotlog (lg # rest) = Inr fig" "1 \<le> i" "i < length (curves lg)"
  shows "i - 1 < length (axes_list fig) \<and>
         plot_number (axes_list fig ! (i - 1)) = i \<and>
         (\<exists>n u. (curves lg ! i) ''name'' = Some n \<and> (curves lg ! i) ''unit'' = Some u \<and>
            xlabel (axes_list fig ! (i - 1)) = Some (n @ '' ['' @ u @ '']'')) \<and>
         xaxis_ticks (axes_list fig ! (i - 1)) = Top \<and>
         xaxis_label_position (axes_list fig ! (i - 1)) = Top"
proof -
  from plotlog_subplot [OF assms] obtain idx where
    lt: "i - 1 < length (axes_list fig)" and
    p: "pass_result (curves lg) (data lg) idx i (axes_list fig ! (i - 1))"
    by blast
  from pass_result_fields(9) [OF p] obtain l where
    "curve_label (curves lg) i = Inr l" "xlabel (axes_list fig ! (i - 1)) = Some l"
    by blast
  then have "\<exists>n u. (curves lg ! i) ''name'' = Some n \<and> (curves lg ! i) ''unit'' = Some u \<and>
            xlabel (axes_list fig ! (i - 1)) = Some (n @ '' ['' @ u @ '']'')"
    unfolding curve_label_Inr_iff by auto
  with lt pass_result_fields(3,5,6) [OF p] show ?thesis by simp
qed

theorem horizontal_labels_witness:
  "plotlog [depth_gamma_res] \<noteq> Inl IndexError \<and>
   (1::nat) \<le> 2 \<and> 2 < length (curves depth_gamma_res) \<and>
   plot_number (axes_list (projr (plotlog [depth_gamma_res])) ! (2 - 1)) = 2 \<and>
   xlabel (axes_list (projr (plotlog [depth_gamma_res])) ! (2 - 1)) = Some ''Res [ohmm]'' \<and>
   xaxis_ticks (axes_list (projr (plotlog [depth_gamma_res])) ! (2 - 1)) = Top \<and>
   xaxis_label_position (axes_list (projr (plotlog [depth_gamma_res])) ! (2 - 1)) = Top"
proof -
  have n: "2 < length (curves depth_gamma_res)" by (simp add: depth_gamma_res_def)
  from horizontal_labels [OF plotlog_depth_gamma_res _ n] n show ?thesis
    by (simp add: plotlog_depth_gamma_res)
qed

text \<open>
  C6, as stated: every subplot plots its line against one inverted vertical axis that the
  subplots share. The script calls \<^verbatim>\<open>plt.subplot\<close> without \<^verbatim>\<open>sharey\<close> and inverts the axis
  of each axes object on its own, so the vertical axes are separate objects. On the
  document with three curves both subplots end with their axis inverted; one more
  \<^verbatim>\<open>plt.gca().invert_yaxis()\<close> on the finished figure turns the axis of the second subplot
  back and leaves the axis of the first as it was, which a shared axis would not allow.
\<close>

theorem separate_vertical_axes:
  "\<not> isl (plotlog [depth_gamma_res]) \<and>
   map yaxis_inverted (axes_list (projr (plotlog [depth_gamma_res]))) = [True, True] \<and>
   map yaxis_inverted
     (axes_list (gca_update invert_yaxis (projr (plotlog [depth_gamma_res])))) = [True, False]"
  by (simp add: plotlog_depth_gamma_res gca_update_def invert_yaxis_def)

text \<open>
  C6, the part that holds: on every run that reaches its end, each subplot has its own
  vertical axis and that axis is inverted, and the subplot at position \<open>i\<close> holds one line:
  the extracted column \<open>i\<close> as horizontal values against the index column as vertical
  values. The subplots have the index column in common, not the axis.
\<close>

theorem inverted_axis_and_line:
  assumes "plotlog (lg # rest) = Inr fig" "1 \<le> i" "i < length (curves lg)"
  shows "i - 1 < length (axes_list fig) \<and>
         plot_number (axes_list fig ! (i - 1)) = i \<and>
         yaxis_inverted (axes_list fig ! (i - 1)) \<and>
         (\<exists>crv idx. curve i (data lg) = Inr crv \<and> index (data lg) = Inr idx \<and>
            lines (axes_list fig ! (i - 1)) = [(crv, idx)])"
proof -
  from plotlog_subplot [OF assms] obtain idx where
    idx: "index (data lg) = Inr idx" and
    lt: "i - 1 < length (axes_list fig)" and
    p: "pass_result (curves lg) (data lg) idx i (axes_list fig ! (i - 1))"
    by blast
  from pass_result_fields(8) [OF p] idx
  have "\<exists>crv idx. curve i (data lg) = Inr crv \<and> index (data lg) = Inr idx \<and>
            lines (axes_list fig ! (i - 1)) = [(crv, idx)]"
    by blast
  with lt pass_result_fields(3,4) [OF p] show ?thesis by simp
qed

theorem inverted_axis_and_line_witness:
  "\<not> isl (plotlog [depth_gamma_res]) \<and> (1::nat) \<le> 2 \<and> 2 < length (curves depth_gamma_res) \<and>
   plot_number (axes_list (projr (plotlog [depth_gamma_res])) ! (2 - 1)) = 2 \<and>
   yaxis_inverted (axes_list (projr (plotlog [depth_gamma_res])) ! (2 - 1)) \<and>
   curve 2 (data depth_gamma_res) = Inr [5, 7] \<and>
   index (data depth_gamma_res) = Inr [0, 1] \<and>
   lines (axes_list (projr (plotlog [depth_gamma_res])) ! (2 - 1)) = [([5, 7], [0, 1])]"
proof -
  have n: "2 < length (curves depth_gamma_res)" by (simp add: depth_gamma_res_def)
  have c: "curve 2 (data depth_gamma_res) = Inr [5, 7]"
    by (simp add: depth_gamma_res_def curve_def getitem_def)
  have i: "index (data depth_gamma_res) = Inr [0, 1]"
    by (simp add: depth_gamma_res_def index_def getitem_def)
  from inverted_axis_and_line [OF plotlog_depth_gamma_res _ n] n c i show ?thesis
    by (simp add: plotlog_depth_gamma_res)
qed

text \<open>
  C7, as stated: an empty \<^verbatim>\<open>curves\<close> list, an empty \<^verbatim>\<open>data\<close> list, or a rendered curve
  without a name or unit makes the script fail. This does not hold for the empty lists:
  with both lists empty the body of the loop never runs and the script ends normally,
  with an empty figure shown.
\<close>

theorem empty_document_runs:
  "plotlog [\<lparr>curves = [], data = ([] :: int list list)\<rparr>] =
     Inr \<lparr>axes_list = [], suptitle = Some ''JSON Well Log'', shown = True\<rparr>"
  by (simp add: script_defs)

text \<open>
  C7, the part that holds: when there are at least two curves and some curve lacks the key
  \<^verbatim>\<open>name\<close> or \<^verbatim>\<open>unit\<close>, the script ends with an error and \<^verbatim>\<open>plt.show\<close> is never
  reached. With a single curve no label is ever formatted.
\<close>

theorem missing_key_fails:
  assumes "2 \<le> length (curves lg)" "i < length (curves lg)"
    and "''name'' \<notin> dom (curves lg ! i) \<or> ''unit'' \<notin> dom (curves lg ! i)"
  shows "isl (plotlog (lg # rest))"
proof (rule ccontr)
  assume "\<not> isl (plotlog (lg # rest))"
  then obtain fig where run: "plotlog (lg # rest) = Inr fig"
    by (cases "plotlog (lg # rest)") auto
  have "\<exists>l. curve_label (curves lg) i = Inr l"
  proof (cases "i = 0")
    case True
    from assms(1) have one: "(1::nat) \<le> 1" "1 < length (curves lg)" by simp_all
    from plotlog_subplot [OF run one] obtain idx where
      "pass_result (curves lg) (data lg) idx 1 (axes_list fig ! (1 - 1))" by blast
    from pass_result_fields(10) [OF this] True show ?thesis by auto
  next
    case False
    then have "1 \<le> i" by simp
    from plotlog_subplot [OF run this assms(2)] obtain idx where
      "pass_result (curves lg) (data lg) idx i (axes_list fig ! (i - 1))" by blast
    from pass_result_fields(9) [OF this] show ?thesis by auto
  qed
  then have "''name'' \<in> dom (curves lg ! i) \<and> ''unit'' \<in> dom (curves lg ! i)"
    unfolding curve_label_Inr_iff by auto
  with assms(3) show False by simp
qed

theorem missing_key_fails_witness:
  "2 \<le> length (curves unit_missing) \<and> 1 < length (curves unit_missing) \<and>
   (curves unit_missing ! 1) ''unit'' = None \<and>
   plotlog [unit_missing] = Inl (KeyError ''unit'')"
proof -
  have h1: "2 \<le> length (curves unit_missing)" and h2: "1 < length (curves unit_missing)"
    and h3: "(curves unit_missing ! 1) ''unit'' = None"
    by (simp_all add: unit_missing_def)
  from h3 have h3': "''name'' \<notin> dom (curves unit_missing ! 1) \<or>
      ''unit'' \<notin> dom (curves unit_missing ! 1)"
    by (simp add: dom_def)
  have run: "plotlog [unit_missing] = Inl (KeyError ''unit'')"
    by (simp add: script_defs unit_missing_def upt_1_2)
  from missing_key_fails [OF h1 h2 h3', of "[]"] h1 h2 h3 run show ?thesis by simp
qed

text \<open>
  C8. With an empty \<^verbatim>\<open>data\<close> list the index column and the column of every position are
  empty, \<^verbatim>\<open>plt.plot\<close> accepts the two empty sequences, and, when every curve carries a
  name and a unit, the script runs to its end with one subplot per non-index curve, each
  holding the empty line.
\<close>

theorem empty_data:
  assumes "data lg = []"
  shows "index (data lg) = Inr [] \<and> curve i (data lg) = Inr [] \<and>
         \<not> isl (plt_plot [] [] f :: error + 'a figure) \<and>
         ((\<forall>c\<in>set (curves lg). ''name'' \<in> dom c \<and> ''unit'' \<in> dom c) \<longrightarrow>
            (\<exists>fig. plotlog ((lg :: 'a log) # rest) = Inr fig \<and>
               length (axes_list fig) = length (curves lg) - 1 \<and>
               (\<forall>ax\<in>set (axes_list fig). lines ax = [([], [])])))"
proof (intro conjI impI)
  from assms show "index (data lg) = Inr []" by (simp add: index_def)
  from assms show "curve i (data lg) = Inr []" by (simp add: curve_def)
  show "\<not> isl (plt_plot [] [] f :: error + 'a figure)" by (simp add: plt_plot_def)
next
  assume keys: "\<forall>c\<in>set (curves lg). ''name'' \<in> dom c \<and> ''unit'' \<in> dom c"
  from assms
  have "\<forall>row\<in>set (data lg). 0 < length row \<and> length (curves lg) \<le> length row" by simp
  from plotlog_runs [OF this keys] obtain fig where run: "plotlog (lg # rest) = Inr fig"
    by blast
  have "\<forall>ax\<in>set (axes_list fig). lines ax = [([], [])]"
  proof
    fix ax assume "ax \<in> set (axes_list fig)"
    from plotlog_axes_in_range [OF run this] obtain idx j where
      idx: "index (data lg) = Inr idx" and q: "pass_result (curves lg) (data lg) idx j ax"
      by blast
    from pass_result_fields(8) [OF q] obtain crv where
      crv: "curve j (data lg) = Inr crv" "lines ax = [(crv, idx)]" by blast
    from idx crv assms show "lines ax = [([], [])]" by (simp add: index_def curve_def)
  qed
  with run plotlog_axes_count(2) [OF run]
  show "\<exists>fig. plotlog (lg # rest) = Inr fig \<and>
               length (axes_list fig) = length (curves lg) - 1 \<and>
               (\<forall>ax\<in>set (axes_list fig). lines ax = [([], [])])"
    by blast
qed

theorem empty_data_witness:
  "data no_rows = [] \<and> curves no_rows \<noteq> [] \<and>
   index (data no_rows) = Inr [] \<and> curve 1 (data no_rows) = Inr [] \<and>
   \<not> isl (plt_plot [] [] (new_figure :: int figure)) \<and>
   list_all (\<lambda>c. c ''name'' \<noteq> None \<and> c ''unit'' \<noteq> None) (curves no_rows) \<and>
   \<not> isl (plotlog [no_rows]) \<and>
   map lines (axes_list (projr (plotlog [no_rows]))) = [[([], [])]]"
proof -
  have h: "data no_rows = []" by (simp add: no_rows_def)
  have k: "\<forall>c\<in>set (curves no_rows). ''name'' \<in> dom c \<and> ''unit'' \<in> dom c"
    by (simp add: no_rows_def)
  have k': "list_all (\<lambda>c. c ''name'' \<noteq> None \<and> c ''unit'' \<noteq> None) (curves no_rows)"
    and ne: "curves no_rows \<noteq> []"
    by (simp_all add: no_rows_def)
  have run: "plotlog [no_rows] =
     Inr \<lparr>axes_list =
            [\<lparr>nrows = 1, ncols = 2, plot_number = 1, lines = [([], [])],
                yaxis_inverted = True, xaxis_ticks = Top, xaxis_label_position = Top,
                yticklabels = None, ylabel = Some ''Depth [m]'',
                xlabel = Some ''Gamma [API]''\<rparr>],
          suptitle = Some ''JSON Well Log'', shown = True\<rparr>"
    by (simp add: script_defs no_rows_def upt_1_2)
  from empty_data [OF h, of 1 new_figure "[]"] h k' ne show ?thesis
    by (simp add: run)
qed

text \<open>
  C9. A row that has no cell at the requested position makes the extraction of that
  column fail with an index error: for any position \<open>i\<close> at or beyond the length of the row,
  for the index column when the row is empty, and for the last of \<open>n\<close> curve positions when
  the row is shorter than \<open>n\<close>.
\<close>

theorem short_row_fails:
  assumes "row \<in> set d"
  shows "(length row \<le> i \<longrightarrow> curve i d = Inl IndexError) \<and>
         (row = [] \<longrightarrow> index d = Inl IndexError) \<and>
         (length row < n \<longrightarrow> curve (n - 1) d = Inl IndexError)"
proof (intro conjI impI)
  assume "length row \<le> i"
  with assms show "curve i d = Inl IndexError" by (rule curve_Inl)
next
  assume "row = []"
  then have "length row \<le> 0" by simp
  with assms have "curve 0 d = Inl IndexError" by (rule curve_Inl)
  then show "index d = Inl IndexError" by (simp add: index_curve)
next
  assume "length row < n"
  then have "length row \<le> n - 1" by simp
  with assms show "curve (n - 1) d = Inl IndexError" by (rule curve_Inl)
qed

theorem short_row_fails_witness:
  "[1] \<in> set [[0, 10], [1], [2, 15 :: int]] \<and> length [1 :: int] \<le> 1 \<and>
   curve 1 [[0, 10], [1], [2, 15 :: int]] = Inl IndexError \<and>
   [] \<in> set [[0, 10], [], [2, 15 :: int]] \<and>
   index [[0, 10], [], [2, 15 :: int]] = Inl IndexError \<and>
   length [1 :: int] < 2 \<and> curve (2 - 1) [[0, 10], [1], [2, 15 :: int]] = Inl IndexError"
  using short_row_fails [of "[1]" "[[0, 10], [1], [2, 15 :: int]]" 1 2]
    short_row_fails [of "[]" "[[0, 10], [], [2, 15 :: int]]" 0 0]
  by simp

text \<open>
  C10. An extracted column, index or curve, has as many entries as \<^verbatim>\<open>data\<close> has rows; on
  a run that reaches its end both sequences of every plotted line have that length.
\<close>

theorem column_lengths:
  "(index d = Inr idx \<longrightarrow> length idx = length d) \<and>
   (curve i d = Inr col \<longrightarrow> length col = length d) \<and>
   (plotlog (lg # rest) = Inr fig \<longrightarrow>
      (\<forall>ax\<in>set (axes_list fig). \<forall>(xs, ys)\<in>set (lines ax).
         length xs = length (data lg) \<and> length ys = length (data lg)))"
proof (intro conjI impI ballI)
  assume "index d = Inr idx"
  from index_Inr_D [OF this] show "length idx = length d" by simp
next
  assume "curve i d = Inr col"
  from curve_Inr_D [OF this] show "length col = length d" by simp
next
  fix ax p
  assume run: "plotlog (lg # rest) = Inr fig" and ax: "ax \<in> set (axes_list fig)"
    and p: "p \<in> set (lines ax)"
  from plotlog_axes_in_range [OF run ax] obtain idx j where
    idx: "index (data lg) = Inr idx" and q: "pass_result (curves lg) (data lg) idx j ax"
    by blast
  from pass_result_fields(8) [OF q] obtain crv where
    crv: "curve j (data lg) = Inr crv" "lines ax = [(crv, idx)]" by blast
  from index_Inr_D [OF idx] have "length idx = length (data lg)" by simp
  moreover from curve_Inr_D [OF crv(1)] have "length crv = length (data lg)" by simp
  ultimately show "case p of (xs, ys) \<Rightarrow>
      length xs = length (data lg) \<and> length ys = length (data lg)"
    using p crv(2) by simp
qed

theorem column_lengths_witness:
  "index (data depth_gamma_res) = Inr [0, 1] \<and>
   length [0, 1 :: int] = length (data depth_gamma_res) \<and>
   curve 2 (data depth_gamma_res) = Inr [5, 7] \<and>
   length [5, 7 :: int] = length (data depth_gamma_res) \<and>
   \<not> isl (plotlog [depth_gamma_res]) \<and>
   map (map (\<lambda>(xs, ys). (length xs, length ys)) \<circ> lines)
     (axes_list (projr (plotlog [depth_gamma_res]))) = [[(2, 2)], [(2, 2)]]"
proof -
  have c: "curve 2 (data depth_gamma_res) = Inr [5, 7]"
    by (simp add: depth_gamma_res_def curve_def getitem_def)
  have i: "index (data depth_gamma_res) = Inr [0, 1]"
    by (simp add: depth_gamma_res_def index_def getitem_def)
  from column_lengths [of "data depth_gamma_res" "[0, 1]" 2 "[5, 7]" depth_gamma_res "[]"
      "projr (plotlog [depth_gamma_res])"] c i
  show ?thesis
    by (simp add: plotlog_depth_gamma_res)
qed

end
